theory Spec2Isabelle
  imports Complex_Main
begin

section \<open>Numbers, platform functions and user feedback\<close>

text \<open>
  The application is a set of React view-controllers over a hosted relational store.
  Every handler is modelled as a function from the store (and the page's form state) to
  the store after the handler has run, together with the feedback shown to the user.

  Amounts of money are JavaScript numbers on the client and \<open>DECIMAL(10, 2)\<close> columns in
  the store; they are modelled as exact rationals. Quantities are \<open>INTEGER\<close> columns and
  are modelled as integers. Row identifiers (UUIDs) are natural numbers.

  The handlers read numbers from text fields with \<open>parseInt\<close> and \<open>parseFloat\<close>, and
  the sales page matches product names with the store's \<open>ilike\<close> operator. None of the
  three is defined in the repository, so they are parameters of the model, collected in
  a record. \<open>None\<close> stands for \<open>NaN\<close>; \<open>ilike js v p\<close> says that the column value
  \<open>v\<close> matches the pattern \<open>p\<close>.
\<close>

type_synonym uuid = nat

record platform =
  parseInt :: "string \<Rightarrow> int option"
  parseFloat :: "string \<Rightarrow> rat option"
  ilike :: "string \<Rightarrow> string \<Rightarrow> bool"

text \<open>\<open>x >= c\<close> on a parsed number: any comparison with \<open>NaN\<close> is false.\<close>

definition js_ge :: "'a::linorder option \<Rightarrow> 'a \<Rightarrow> bool" where
  "js_ge x c = (case x of None \<Rightarrow> False | Some v \<Rightarrow> c \<le> v)"

text \<open>\<open>String.prototype.trim\<close>, on the ASCII white space a \<open>char\<close> can hold.\<close>

definition is_space :: "char \<Rightarrow> bool" where
  "is_space c = (c \<in> set [CHR '' '', CHR 0x09, CHR 0x0A, CHR 0x0B, CHR 0x0C, CHR 0x0D])"

definition trim :: "string \<Rightarrow> string" where
  "trim s = rev (dropWhile is_space (rev (dropWhile is_space s)))"

text \<open>
  What a handler shows when it returns: nothing, the validation messages it put next to
  the form fields (field name and message), a toast of the destructive variant (its
  title), or a plain toast (its title).
\<close>

datatype outcome =
    Nothing
  | Invalid "(string \<times> string) list"
  | Failed string
  | Done string

section \<open>The store\<close>

text \<open>
  One list of rows per table of the migrations, in the order of insertion. Columns that
  the store fills by default and that no handler reads (\<open>created_at\<close>,
  \<open>updated_at\<close>, and \<open>id\<close> of the tables whose rows are never addressed by it) are
  left out. A call to the store either fails, returning an error message and writing
  nothing, or succeeds; which of the two happens is an input of each handler, one
  \<open>string option\<close> per call (\<open>None\<close>: no error).
\<close>

record stock_row =
  stock_id :: uuid
  stock_user_id :: uuid
  stock_product_name :: string
  stock_quantity :: int
  stock_cost_price :: rat
  stock_total_sold :: int

record sale_row =
  sale_user_id :: uuid
  sale_date :: string
  sale_time :: string
  sale_product_name :: string
  sale_quantity :: int
  sale_cost_price :: rat
  sale_selling_price :: rat
  sale_total_cost :: rat
  sale_revenue :: rat
  sale_profit_loss :: rat

record debtor_row =
  debtor_id :: uuid
  debtor_user_id :: uuid
  customer_name :: string
  customer_phone :: string
  customer_email :: "string option"
  grand_total :: rat
  total_paid :: rat
  current_balance :: rat
  status :: string

record debt_item_row =
  di_debtor_id :: uuid
  di_item_date :: string
  di_item_name :: string
  di_quantity :: int
  di_selling_price :: rat
  di_total :: rat

record payment_row =
  pay_debtor_id :: uuid
  pay_amount :: rat

record db =
  stock :: "stock_row list"
  sales :: "sale_row list"
  debtors :: "debtor_row list"
  debt_items :: "debt_item_row list"
  payments :: "payment_row list"

text \<open>The identifier the store gives to an inserted row: one that no row has yet.\<close>

definition gen_random_uuid :: "uuid list \<Rightarrow> uuid" where
  "gen_random_uuid ids = Suc (fold max ids 0)"

text \<open>
  \<open>.maybeSingle()\<close> of the store's client: the row when the query selects exactly one,
  \<open>null\<close> when it selects none, and \<open>null\<close> with an error when it selects several.
\<close>

definition maybeSingle :: "'a list \<Rightarrow> 'a option" where
  "maybeSingle rows = (case rows of [r] \<Rightarrow> Some r | _ \<Rightarrow> None)"

section \<open>Sales page\<close>

text \<open>The component \<open>SalesPage\<close>: its form, its schema and its \<open>handleSubmit\<close>.\<close>

record sale_form =
  sf_sale_date :: string
  sf_sale_time :: string
  sf_product_name :: string
  sf_quantity :: string
  sf_cost_price :: string
  sf_selling_price :: string

text \<open>\<open>saleSchema.safeParse(formData)\<close>: the messages by field; empty when the form is valid.\<close>

definition saleSchema :: "platform \<Rightarrow> sale_form \<Rightarrow> (string \<times> string) list" where
  "saleSchema js f =
     (if length (sf_sale_date f) < 1 then [(''sale_date'', ''Date is required'')] else []) @
     (if length (sf_sale_time f) < 1 then [(''sale_time'', ''Time is required'')] else []) @
     (if length (sf_product_name f) < 1 then [(''product_name'', ''Product name is required'')]
      else if 100 < length (sf_product_name f) then [(''product_name'', ''Product name too long'')]
      else []) @
     (if js_ge (parseInt js (sf_quantity f)) 1 then []
      else [(''quantity'', ''Quantity must be at least 1'')]) @
     (if js_ge (parseFloat js (sf_cost_price f)) (1 / 100) then []
      else [(''cost_price'', ''Cost price must be at least 0.01'')]) @
     (if js_ge (parseFloat js (sf_selling_price f)) (1 / 100) then []
      else [(''selling_price'', ''Selling price must be at least 0.01'')])"

text \<open>
  The \<open>stock\<close> query of \<open>handleSubmit\<close>: rows of the user whose product name matches the
  trimmed name of the form, through \<open>maybeSingle\<close>. The handler reads \<open>data\<close> only, so a
  query that fails looks like one that selects nothing.
\<close>

definition select_stockItem :: "platform \<Rightarrow> uuid \<Rightarrow> string \<Rightarrow> string option \<Rightarrow> db \<Rightarrow> stock_row option" where
  "select_stockItem js userId product_name selectError d =
     (case selectError of
        Some _ \<Rightarrow> None
      | None \<Rightarrow>
          maybeSingle (filter (\<lambda>r. stock_user_id r = userId \<and>
                                   ilike js (stock_product_name r) (trim product_name)) (stock d)))"

text \<open>\<open>.update({quantity, total_sold}).eq("id", id)\<close> on the \<open>stock\<close> table.\<close>

definition update_stock :: "uuid \<Rightarrow> int \<Rightarrow> int \<Rightarrow> stock_row list \<Rightarrow> stock_row list" where
  "update_stock i q ts rows =
     map (\<lambda>r. if stock_id r = i then r\<lparr>stock_quantity := q, stock_total_sold := ts\<rparr> else r) rows"

text \<open>The row that \<open>handleSubmit\<close> sends to the \<open>sales\<close> table.\<close>

definition sale_of_form :: "platform \<Rightarrow> uuid \<Rightarrow> sale_form \<Rightarrow> sale_row" where
  "sale_of_form js userId formData =
     (let quantity = the (parseInt js (sf_quantity formData));
          costPrice = the (parseFloat js (sf_cost_price formData));
          sellingPrice = the (parseFloat js (sf_selling_price formData));
          totalCost = of_int quantity * costPrice;
          revenue = of_int quantity * sellingPrice;
          profitLoss = revenue - totalCost
      in \<lparr>sale_user_id = userId,
          sale_date = sf_sale_date formData,
          sale_time = sf_sale_time formData,
          sale_product_name = trim (sf_product_name formData),
          sale_quantity = quantity,
          sale_cost_price = costPrice,
          sale_selling_price = sellingPrice,
          sale_total_cost = totalCost,
          sale_revenue = revenue,
          sale_profit_loss = profitLoss\<rparr>)"

text \<open>
  \<open>handleSubmit\<close> of the sales page. \<open>selectError\<close>, \<open>stockError\<close> and \<open>error\<close> are the
  results of its three calls to the store, in the order of the source.
\<close>

definition SalesPage_handleSubmit ::
  "platform \<Rightarrow> uuid \<Rightarrow> sale_form \<Rightarrow> string option \<Rightarrow> string option \<Rightarrow> string option \<Rightarrow> db
     \<Rightarrow> db \<times> outcome" where
  "SalesPage_handleSubmit js userId formData selectError stockError error d =
     (if saleSchema js formData \<noteq> [] then (d, Invalid (saleSchema js formData))
      else
        let quantity = the (parseInt js (sf_quantity formData));
            stockItem = select_stockItem js userId (sf_product_name formData) selectError d;
            insert_sale = (\<lambda>d'.
              case error of
                Some _ \<Rightarrow> (d', Failed ''Error adding sale'')
              | None \<Rightarrow>
                  (d'\<lparr>sales := sales d' @ [sale_of_form js userId formData]\<rparr>,
                   Done (''Sale recorded successfully!'' @
                         (if stockItem \<noteq> None then '' Stock updated.'' else ''''))))
        in case stockItem of
             None \<Rightarrow> insert_sale d
           | Some item \<Rightarrow>
               if stock_quantity item < quantity then (d, Failed ''Insufficient stock'')
               else (case stockError of
                       Some _ \<Rightarrow> (d, Failed ''Error updating stock'')
                     | None \<Rightarrow>
                         insert_sale
                           (d\<lparr>stock := update_stock (stock_id item)
                                         (stock_quantity item - quantity)
                                         (stock_total_sold item + quantity) (stock d)\<rparr>)))"

section \<open>Stock management\<close>

text \<open>The component \<open>StockManagement\<close>: the form for a new item and the restock dialog.\<close>

record stock_form =
  st_product_name :: string
  st_quantity :: string
  st_cost_price :: string

definition stockSchema :: "platform \<Rightarrow> stock_form \<Rightarrow> (string \<times> string) list" where
  "stockSchema js f =
     (if length (st_product_name f) < 1 then [(''product_name'', ''Product name is required'')]
      else if 100 < length (st_product_name f) then [(''product_name'', ''Product name too long'')]
      else []) @
     (if js_ge (parseInt js (st_quantity f)) 1 then []
      else [(''quantity'', ''Quantity must be at least 1'')]) @
     (if js_ge (parseFloat js (st_cost_price f)) (1 / 100) then []
      else [(''cost_price'', ''Cost price must be at least 0.01'')])"

text \<open>
  \<open>handleSubmit\<close> of the stock form: one insert into \<open>stock\<close>. The store gives the row
  its identifier and the default \<open>total_sold = 0\<close>.
\<close>

definition StockManagement_handleSubmit ::
  "platform \<Rightarrow> uuid \<Rightarrow> stock_form \<Rightarrow> string option \<Rightarrow> db \<Rightarrow> db \<times> outcome" where
  "StockManagement_handleSubmit js userId formData error d =
     (if stockSchema js formData \<noteq> [] then (d, Invalid (stockSchema js formData))
      else
        let quantity = the (parseInt js (st_quantity formData));
            costPrice = the (parseFloat js (st_cost_price formData))
        in case error of
             Some _ \<Rightarrow> (d, Failed ''Error adding stock'')
           | None \<Rightarrow>
               (d\<lparr>stock := stock d @
                    [\<lparr>stock_id = gen_random_uuid (map stock_id (stock d)),
                      stock_user_id = userId,
                      stock_product_name = trim (st_product_name formData),
                      stock_quantity = quantity,
                      stock_cost_price = costPrice,
                      stock_total_sold = 0\<rparr>]\<rparr>,
                Done ''Stock added successfully!''))"

text \<open>
  \<open>handleRestock\<close>. \<open>restockItem\<close> is the row of the page's stock list whose Restock
  button was pressed (\<open>None\<close> when the dialog is closed), \<open>restockQuantity\<close> the text of
  the dialog's field. The new quantity is computed from the row as the page holds it.
  The title of the last toast is kept as the source's template.
\<close>

definition handleRestock ::
  "platform \<Rightarrow> stock_row option \<Rightarrow> string \<Rightarrow> string option \<Rightarrow> db \<Rightarrow> db \<times> outcome" where
  "handleRestock js restockItem restockQuantity error d =
     (case restockItem of
        None \<Rightarrow> (d, Nothing)
      | Some item \<Rightarrow>
          if restockQuantity = [] then (d, Nothing)
          else
            (case parseInt js restockQuantity of
               None \<Rightarrow> (d, Failed ''Please enter a valid quantity'')
             | Some addQuantity \<Rightarrow>
                 if addQuantity < 1 then (d, Failed ''Please enter a valid quantity'')
                 else
                   (let newQuantity = stock_quantity item + addQuantity
                    in (case error of
                          Some _ \<Rightarrow> (d, Failed ''Error restocking'')
                        | None \<Rightarrow>
                            (d\<lparr>stock := map (\<lambda>r. if stock_id r = stock_id item
                                                  then r\<lparr>stock_quantity := newQuantity\<rparr> else r)
                                              (stock d)\<rparr>,
                             Done ''Added ${addQuantity} units to ${restockItem.product_name}'')))))"

text \<open>The invariant of the \<open>stock\<close> table: no row has a negative quantity.\<close>

definition stock_nonneg :: "db \<Rightarrow> bool" where
  "stock_nonneg d = list_all (\<lambda>r. 0 \<le> stock_quantity r) (stock d)"

section \<open>Debt page\<close>

text \<open>
  The component \<open>DebtPage\<close>. It keeps the debtor form (\<open>formData\<close>: customer,
  bundle of items, running \<open>grand_total\<close>, text of the initial payment) and the item
  being typed (\<open>currentItem\<close>). Text fields stay text; \<open>today\<close> is the result of
  \<open>format(new Date(), "yyyy-MM-dd")\<close>.
\<close>

record bundle_item =
  bi_item_date :: string
  bi_item_name :: string
  bi_quantity :: int
  bi_selling_price :: rat
  bi_total :: rat

record item_form =
  ci_item_date :: string
  ci_item_name :: string
  ci_quantity :: string
  ci_selling_price :: string

record debt_form =
  df_customer_name :: string
  df_customer_phone :: string
  df_customer_email :: string
  df_items :: "bundle_item list"
  df_grand_total :: rat
  df_payment_amount :: string

definition initial_formData :: debt_form where
  "initial_formData =
     \<lparr>df_customer_name = [], df_customer_phone = [], df_customer_email = [],
      df_items = [], df_grand_total = 0, df_payment_amount = []\<rparr>"

definition initial_currentItem :: "string \<Rightarrow> item_form" where
  "initial_currentItem today =
     \<lparr>ci_item_date = today, ci_item_name = [], ci_quantity = [], ci_selling_price = []\<rparr>"

definition customerSchema :: "debt_form \<Rightarrow> (string \<times> string) list" where
  "customerSchema f =
     (if length (df_customer_name f) < 2
      then [(''customer_name'', ''Name must be at least 2 characters'')]
      else if 100 < length (df_customer_name f) then [(''customer_name'', ''Name too long'')]
      else []) @
     (if length (df_customer_phone f) < 10
      then [(''customer_phone'', ''Phone number must be at least 10 digits'')]
      else if 15 < length (df_customer_phone f)
      then [(''customer_phone'', ''Phone number too long'')]
      else [])"

definition itemSchema :: "platform \<Rightarrow> item_form \<Rightarrow> (string \<times> string) list" where
  "itemSchema js c =
     (if length (ci_item_name c) < 1 then [(''item_name'', ''Item name is required'')]
      else if 100 < length (ci_item_name c) then [(''item_name'', ''Item name too long'')]
      else []) @
     (if js_ge (parseInt js (ci_quantity c)) 1 then []
      else [(''quantity'', ''Quantity must be at least 1'')]) @
     (if js_ge (parseFloat js (ci_selling_price c)) (1 / 100) then []
      else [(''selling_price'', ''Price must be at least 0.01'')])"

text \<open>\<open>items.reduce((sum, item) => sum + item.total, 0)\<close>.\<close>

definition sum_totals :: "bundle_item list \<Rightarrow> rat" where
  "sum_totals its = foldl (\<lambda>sum item. sum + bi_total item) 0 its"

text \<open>The text fields that \<open>handleCustomerChange\<close> is called with.\<close>

datatype customer_field = Customer_name | Customer_phone | Customer_email | Payment_amount

definition handleCustomerChange :: "customer_field \<Rightarrow> string \<Rightarrow> debt_form \<Rightarrow> debt_form" where
  "handleCustomerChange field v formData =
     (case field of
        Customer_name \<Rightarrow> formData\<lparr>df_customer_name := v\<rparr>
      | Customer_phone \<Rightarrow> formData\<lparr>df_customer_phone := v\<rparr>
      | Customer_email \<Rightarrow> formData\<lparr>df_customer_email := v\<rparr>
      | Payment_amount \<Rightarrow> formData\<lparr>df_payment_amount := v\<rparr>)"

datatype item_field = Item_date | Item_name | Quantity | Selling_price

definition handleItemChange :: "item_field \<Rightarrow> string \<Rightarrow> item_form \<Rightarrow> item_form" where
  "handleItemChange field v currentItem =
     (case field of
        Item_date \<Rightarrow> currentItem\<lparr>ci_item_date := v\<rparr>
      | Item_name \<Rightarrow> currentItem\<lparr>ci_item_name := v\<rparr>
      | Quantity \<Rightarrow> currentItem\<lparr>ci_quantity := v\<rparr>
      | Selling_price \<Rightarrow> currentItem\<lparr>ci_selling_price := v\<rparr>)"

definition addItemToBundle ::
  "platform \<Rightarrow> string \<Rightarrow> debt_form \<times> item_form \<Rightarrow> (debt_form \<times> item_form) \<times> outcome" where
  "addItemToBundle js today st =
     (let formData = fst st; currentItem = snd st in
      if itemSchema js currentItem \<noteq> [] then (st, Invalid (itemSchema js currentItem))
      else
        let quantity = the (parseInt js (ci_quantity currentItem));
            sellingPrice = the (parseFloat js (ci_selling_price currentItem));
            total = of_int quantity * sellingPrice;
            newItem = \<lparr>bi_item_date = ci_item_date currentItem,
                       bi_item_name = ci_item_name currentItem,
                       bi_quantity = quantity,
                       bi_selling_price = sellingPrice,
                       bi_total = total\<rparr>;
            updatedItems = df_items formData @ [newItem];
            grandTotal = sum_totals updatedItems
        in ((formData\<lparr>df_items := updatedItems, df_grand_total := grandTotal\<rparr>,
             initial_currentItem today),
            Done ''Item added to bundle''))"

text \<open>\<open>formData.items.filter((_, i) => i !== index)\<close> and the total again.\<close>

definition removeItemFromBundle :: "nat \<Rightarrow> debt_form \<Rightarrow> debt_form" where
  "removeItemFromBundle index formData =
     (let updatedItems = map snd (filter (\<lambda>p. fst p \<noteq> index) (enumerate 0 (df_items formData)));
          grandTotal = sum_totals updatedItems
      in formData\<lparr>df_items := updatedItems, df_grand_total := grandTotal\<rparr>)"

text \<open>
  \<open>createDebtor\<close>. Its three calls to the store are the insert of the debtor row
  (result \<open>debtorError\<close>), the insert of the items (\<open>itemsError\<close>) and, when an initial
  payment was entered, the insert of the payment (\<open>paymentError\<close>: the source awaits
  this call and does not look at its result). The form is emptied on success only.
\<close>

definition createDebtor ::
  "platform \<Rightarrow> uuid \<Rightarrow> debt_form \<Rightarrow> string option \<Rightarrow> string option \<Rightarrow> string option \<Rightarrow> db
     \<Rightarrow> (debt_form \<times> db) \<times> outcome" where
  "createDebtor js userId formData debtorError itemsError paymentError d =
     (if customerSchema formData \<noteq> [] then ((formData, d), Invalid (customerSchema formData))
      else if length (df_items formData) = 0
      then ((formData, d), Failed ''Please add at least one item'')
      else
        let paymentAmount =
              (case parseFloat js (df_payment_amount formData) of None \<Rightarrow> 0 | Some v \<Rightarrow> v)
        in
        if paymentAmount < 0
        then ((formData, d), Invalid [(''payment_amount'', ''Payment amount cannot be negative'')])
        else if df_grand_total formData < paymentAmount
        then ((formData, d), Invalid [(''payment_amount'', ''Payment cannot exceed grand total'')])
        else
          let currentBalance = df_grand_total formData - paymentAmount;
              status = (if currentBalance \<le> 0 then ''paid'' else ''pending'')
          in
          (case debtorError of
             Some _ \<Rightarrow> ((formData, d), Failed ''Error creating debtor'')
           | None \<Rightarrow>
               (let debtorData =
                     \<lparr>debtor_id = gen_random_uuid (map debtor_id (debtors d)),
                      debtor_user_id = userId,
                      customer_name = trim (df_customer_name formData),
                      customer_phone = trim (df_customer_phone formData),
                      customer_email = (if trim (df_customer_email formData) = [] then None
                                        else Some (trim (df_customer_email formData))),
                      grand_total = df_grand_total formData,
                      total_paid = paymentAmount,
                      current_balance = currentBalance,
                      status = status\<rparr>;
                   d1 = d\<lparr>debtors := debtors d @ [debtorData]\<rparr>;
                   itemsToInsert =
                     map (\<lambda>item. \<lparr>di_debtor_id = debtor_id debtorData,
                                   di_item_date = bi_item_date item,
                                   di_item_name = trim (bi_item_name item),
                                   di_quantity = bi_quantity item,
                                   di_selling_price = bi_selling_price item,
                                   di_total = bi_total item\<rparr>) (df_items formData)
               in
               (case itemsError of
                  Some _ \<Rightarrow> ((formData, d1), Failed ''Error adding items'')
                | None \<Rightarrow>
                    (let d2 = d1\<lparr>debt_items := debt_items d1 @ itemsToInsert\<rparr>;
                        d3 = (if 0 < paymentAmount \<and> paymentError = None
                              then d2\<lparr>payments := payments d2 @
                                        [\<lparr>pay_debtor_id = debtor_id debtorData,
                                          pay_amount = paymentAmount\<rparr>]\<rparr>
                              else d2)
                    in ((initial_formData, d3), Done ''Debtor created successfully!''))))))"

text \<open>
  \<open>fetchDebtors\<close>: the page's list becomes the user's debtor rows, newest first; when
  the query fails the list stays as it was.
\<close>

definition fetchDebtors :: "uuid \<Rightarrow> string option \<Rightarrow> db \<Rightarrow> debtor_row list \<Rightarrow> debtor_row list" where
  "fetchDebtors userId error d debtors_list =
     (case error of
        Some _ \<Rightarrow> debtors_list
      | None \<Rightarrow> rev (filter (\<lambda>r. debtor_user_id r = userId) (debtors d)))"

section \<open>Payment dialog\<close>

text \<open>
  The component \<open>PaymentModal\<close>. Its \<open>debtor\<close> property is what \<open>handlePayment\<close>
  of the debt page builds from a row of the page's list (\<open>parseFloat\<close> of a number
  that came from the store is that number).
\<close>

record debtor_prop =
  dp_id :: uuid
  dp_customer_name :: string
  dp_current_balance :: rat
  dp_total_paid :: rat
  dp_grand_total :: rat

definition handlePayment :: "debtor_row \<Rightarrow> debtor_prop" where
  "handlePayment debtor =
     \<lparr>dp_id = debtor_id debtor,
      dp_customer_name = customer_name debtor,
      dp_current_balance = current_balance debtor,
      dp_total_paid = total_paid debtor,
      dp_grand_total = grand_total debtor\<rparr>"

text \<open>
  \<open>handleSubmit\<close> of the dialog. \<open>amount\<close> is the text of the field; \<open>z.number()\<close>
  refuses \<open>NaN\<close> with the library's own message. The two calls to the store are the
  insert of the payment (\<open>paymentError\<close>) and the update of the debtor row
  (\<open>updateError\<close>).
\<close>

definition PaymentModal_handleSubmit ::
  "platform \<Rightarrow> debtor_prop option \<Rightarrow> string \<Rightarrow> string option \<Rightarrow> string option \<Rightarrow> db
     \<Rightarrow> db \<times> outcome" where
  "PaymentModal_handleSubmit js debtor amount paymentError updateError d =
     (case debtor of
        None \<Rightarrow> (d, Nothing)
      | Some debtor \<Rightarrow>
          (case parseFloat js amount of
             None \<Rightarrow> (d, Invalid [(''amount'', ''Expected number, received nan'')])
           | Some paymentAmount \<Rightarrow>
               if paymentAmount < 1 / 100
               then (d, Invalid [(''amount'', ''Amount must be at least 0.01'')])
               else if dp_current_balance debtor < paymentAmount
               then (d, Invalid [(''amount'', ''Payment cannot exceed current balance'')])
               else
                 (case paymentError of
                    Some _ \<Rightarrow> (d, Failed ''Error recording payment'')
                  | None \<Rightarrow>
                      (let d1 = d\<lparr>payments := payments d @
                                    [\<lparr>pay_debtor_id = dp_id debtor,
                                      pay_amount = paymentAmount\<rparr>]\<rparr>;
                           newTotalPaid = dp_total_paid debtor + paymentAmount;
                           newBalance = dp_current_balance debtor - paymentAmount;
                           newStatus = (if newBalance \<le> 0 then ''paid'' else ''pending'')
                       in (case updateError of
                             Some _ \<Rightarrow> (d1, Failed ''Error updating debtor'')
                           | None \<Rightarrow>
                               (d1\<lparr>debtors :=
                                     map (\<lambda>r. if debtor_id r = dp_id debtor
                                               then r\<lparr>total_paid := newTotalPaid,
                                                      current_balance := newBalance,
                                                      status := newStatus\<rparr>
                                               else r) (debtors d1)\<rparr>,
                                Done ''Payment recorded successfully!''))))))"

section \<open>CSV export\<close>

text \<open>
  \<open>exportToCsv\<close> looks at a field value in three ways only: whether it is \<open>null\<close>,
  whether it is \<open>undefined\<close>, and what \<open>String(value)\<close> is. A value that is neither
  \<open>null\<close> nor \<open>undefined\<close> is therefore represented by its \<open>String()\<close> image. A row
  (\<open>Record<string, any>\<close>) is the list of its properties in the order of
  \<open>Object.keys\<close>; reading a property that the row does not have gives \<open>undefined\<close>.
\<close>

datatype js_value = Null | Undefined | Value string

fun String :: "js_value \<Rightarrow> string" where
  "String Null = ''null''"
| "String Undefined = ''undefined''"
| "String (Value s) = s"

type_synonym csv_row = "(string \<times> js_value) list"

definition row_get :: "csv_row \<Rightarrow> string \<Rightarrow> js_value" where
  "row_get row key = (case map_of row key of None \<Rightarrow> Undefined | Some v \<Rightarrow> v)"

text \<open>\<open>Array.prototype.join\<close> on an array of strings.\<close>

fun join :: "string \<Rightarrow> string list \<Rightarrow> string" where
  "join sep [] = []"
| "join sep [x] = x"
| "join sep (x # y # ys) = x @ sep @ join sep (y # ys)"

text \<open>\<open>stringValue.replace(/"/g, '""')\<close>.\<close>

definition double_quotes :: "string \<Rightarrow> string" where
  "double_quotes s = concat (map (\<lambda>c. if c = CHR 0x22 then [CHR 0x22, CHR 0x22] else [c]) s)"

text \<open>The function mapped over the keys of a row: the text of one cell.\<close>

definition csv_cell :: "js_value \<Rightarrow> string" where
  "csv_cell v =
     (case v of
        Null \<Rightarrow> []
      | Undefined \<Rightarrow> []
      | Value stringValue \<Rightarrow>
          if CHR '','' \<in> set stringValue \<or> CHR 0x22 \<in> set stringValue \<or>
             CHR 0x0A \<in> set stringValue
          then [CHR 0x22] @ double_quotes stringValue @ [CHR 0x22]
          else stringValue)"

text \<open>
  \<open>exportToCsv\<close>: \<open>None\<close> when it returns at once, otherwise the name and the content
  of the file that the browser is made to download. \<open>headers\<close> is \<open>None\<close> when the
  argument is left out.
\<close>

definition exportToCsv ::
  "string \<Rightarrow> csv_row list \<Rightarrow> string list option \<Rightarrow> (string \<times> string) option" where
  "exportToCsv filename rows headers =
     (case rows of
        [] \<Rightarrow> None
      | row0 # _ \<Rightarrow>
          (let keys = (case headers of Some h \<Rightarrow> h | None \<Rightarrow> map fst row0);
               csvContent =
                 join [CHR 0x0A]
                   (join '','' keys #
                    map (\<lambda>row. join '','' (map (\<lambda>key. csv_cell (row_get row key)) keys)) rows)
           in Some (filename @ ''.csv'', csvContent)))"

text \<open>
  The reader against which the round trip of the export is stated; the repository has
  no CSV reader. Records are separated by line feeds and fields by commas. A field that
  begins with a double quote runs to its closing double quote, and inside it two double
  quotes stand for one. The scanner keeps the field, the record and the records read so
  far.
\<close>

datatype csv_state = Field_start | Unquoted | Quoted | Quote_seen

fun csv_scan ::
  "csv_state \<Rightarrow> string \<Rightarrow> string list \<Rightarrow> string list list \<Rightarrow> string \<Rightarrow> string list list" where
  "csv_scan st fld flds recs [] = recs @ [flds @ [fld]]"
| "csv_scan Quoted fld flds recs (c # cs) =
     (if c = CHR 0x22 then csv_scan Quote_seen fld flds recs cs
      else csv_scan Quoted (fld @ [c]) flds recs cs)"
| "csv_scan st fld flds recs (c # cs) =
     (if c = CHR '','' then csv_scan Field_start [] (flds @ [fld]) recs cs
      else if c = CHR 0x0A then csv_scan Field_start [] [] (recs @ [flds @ [fld]]) cs
      else if c = CHR 0x22 then
        (case st of
           Field_start \<Rightarrow> csv_scan Quoted fld flds recs cs
         | Quote_seen \<Rightarrow> csv_scan Quoted (fld @ [c]) flds recs cs
         | _ \<Rightarrow> csv_scan Unquoted (fld @ [c]) flds recs cs)
      else csv_scan (if st = Quote_seen then Quote_seen else Unquoted) (fld @ [c])
             flds recs cs)"

definition parse_csv :: "string \<Rightarrow> string list list" where
  "parse_csv s = csv_scan Field_start [] [] [] s"

text \<open>A column key that the header line carries as it is.\<close>

definition plain_key :: "string \<Rightarrow> bool" where
  "plain_key k = (CHR '','' \<notin> set k \<and> CHR 0x22 \<notin> set k \<and> CHR 0x0A \<notin> set k)"

text \<open>What the export makes of \<open>null\<close> and \<open>undefined\<close>: the empty string.\<close>

definition blank_nullish :: "js_value \<Rightarrow> js_value" where
  "blank_nullish v = (case v of Value s \<Rightarrow> Value s | _ \<Rightarrow> Value [])"

text \<open>Where a field may end: at the end of the input, before a comma or before a line feed.\<close>

definition at_boundary :: "string \<Rightarrow> bool" where
  "at_boundary rest = (case rest of [] \<Rightarrow> True | c # _ \<Rightarrow> c = CHR '','' \<or> c = CHR 0x0A)"

section \<open>Sequences of user actions\<close>

text \<open>
  Filling the debtor form: the four handlers of the form, applied one after the other
  from the page's initial state.
\<close>

datatype form_action =
    Customer_change customer_field string
  | Item_change item_field string
  | Add_item
  | Remove_item nat

definition form_step ::
  "platform \<Rightarrow> string \<Rightarrow> debt_form \<times> item_form \<Rightarrow> form_action \<Rightarrow> debt_form \<times> item_form" where
  "form_step js today st a =
     (case a of
        Customer_change field v \<Rightarrow> (handleCustomerChange field v (fst st), snd st)
      | Item_change field v \<Rightarrow> (fst st, handleItemChange field v (snd st))
      | Add_item \<Rightarrow> fst (addItemToBundle js today st)
      | Remove_item index \<Rightarrow> (removeItemFromBundle index (fst st), snd st))"

definition fill_form :: "platform \<Rightarrow> string \<Rightarrow> form_action list \<Rightarrow> debt_form \<times> item_form" where
  "fill_form js today actions =
     foldl (form_step js today) (initial_formData, initial_currentItem today) actions"

text \<open>
  Recording one payment for the debtor \<open>i\<close>: the user presses Pay on the debtor's row
  of the page's list (the button is there while the row's status is \<open>pending\<close>), which
  opens the dialog on \<open>handlePayment\<close> of that row, and submits \<open>amount\<close>; when the
  dialog reports success the page fetches its list again. The store accepts every call.
  The result is \<open>None\<close> when no payment was recorded.
\<close>

definition record_payment ::
  "platform \<Rightarrow> uuid \<Rightarrow> uuid \<Rightarrow> string \<Rightarrow> debtor_row list \<times> db \<Rightarrow> (debtor_row list \<times> db) option" where
  "record_payment js userId i amount st =
     (case find (\<lambda>r. debtor_id r = i) (fst st) of
        None \<Rightarrow> None
      | Some debtor \<Rightarrow>
          if status debtor \<noteq> ''pending'' then None
          else
            (case PaymentModal_handleSubmit js (Some (handlePayment debtor)) amount None None (snd st) of
               (d', Done _) \<Rightarrow> Some (fetchDebtors userId None d' (fst st), d')
             | _ \<Rightarrow> None))"

fun record_payments ::
  "platform \<Rightarrow> uuid \<Rightarrow> uuid \<Rightarrow> string list \<Rightarrow> debtor_row list \<times> db \<Rightarrow> (debtor_row list \<times> db) option" where
  "record_payments js userId i [] st = Some st"
| "record_payments js userId i (amount # amounts) st =
     (case record_payment js userId i amount st of
        None \<Rightarrow> None
      | Some st' \<Rightarrow> record_payments js userId i amounts st')"


section \<open>A platform for examples\<close>

text \<open>
  To run the model on concrete forms the three platform functions are instantiated:
  numbers are read from plain strings of decimal digits, and \<open>ilike\<close> is equality up to
  the case of ASCII letters (a pattern without wild cards).
\<close>

fun read_digits :: "int \<Rightarrow> string \<Rightarrow> int option" where
  "read_digits acc [] = Some acc"
| "read_digits acc (c # cs) =
     (if 48 \<le> (of_char c :: int) \<and> (of_char c :: int) \<le> 57
      then read_digits (10 * acc + ((of_char c :: int) - 48)) cs else None)"

definition read_decimal :: "string \<Rightarrow> int option" where
  "read_decimal s = (if s = [] then None else read_digits 0 s)"

definition lower :: "char \<Rightarrow> char" where
  "lower c = (if 65 \<le> (of_char c :: nat) \<and> (of_char c :: nat) \<le> 90
              then char_of ((of_char c :: nat) + 32) else c)"

definition example_platform :: platform where
  "example_platform =
     \<lparr>parseInt = read_decimal,
      parseFloat = (\<lambda>s. map_option of_int (read_decimal s)),
      ilike = (\<lambda>v p. map lower v = map lower p)\<rparr>"

definition example_store :: db where
  "example_store =
     \<lparr>stock = [\<lparr>stock_id = 1, stock_user_id = 7, stock_product_name = ''Rice'',
                stock_quantity = 10, stock_cost_price = 5, stock_total_sold = 0\<rparr>],
      sales = [], debtors = [], debt_items = [], payments = []\<rparr>"

definition example_sale_form :: "string \<Rightarrow> string \<Rightarrow> sale_form" where
  "example_sale_form name q =
     \<lparr>sf_sale_date = ''2025-12-01'', sf_sale_time = ''10:00'', sf_product_name = name,
      sf_quantity = q, sf_cost_price = ''5'', sf_selling_price = ''8''\<rparr>"

definition example_stock_form :: stock_form where
  "example_stock_form = \<lparr>st_product_name = ''Beans'', st_quantity = ''4'', st_cost_price = ''2''\<rparr>"

definition example_debt_form :: "string \<Rightarrow> debt_form" where
  "example_debt_form payment =
     fst (fill_form example_platform ''2025-12-01''
       [Customer_change Customer_name ''Ada Obi'',
        Customer_change Customer_phone ''08012345678'',
        Item_change Item_name ''Rice bag'', Item_change Quantity ''2'',
        Item_change Selling_price ''300'', Add_item,
        Item_change Item_name ''Oil'', Item_change Quantity ''4'',
        Item_change Selling_price ''100'', Add_item,
        Customer_change Payment_amount payment])"

definition example_debtor_store :: db where
  "example_debtor_store =
     snd (fst (createDebtor example_platform 7 (example_debt_form []) None None None example_store))"


definition example_rows :: "csv_row list" where
  "example_rows =
     [[(''Customer Name'', Value ''Obi, Ada''), (''Note'', Value [CHR ''s'', CHR ''a'', CHR ''i'', CHR ''d'', CHR '' '', CHR 0x22, CHR ''o'', CHR ''k'', CHR 0x22, CHR 0x0A, CHR ''n'', CHR ''o'', CHR ''w'']),
       (''Email'', Null)],
      [(''Customer Name'', Value ''Bola''), (''Note'', Value [])]]"

section \<open>Properties of the sales page and of stock management\<close>

lemma saleSchema_valid:
  assumes "saleSchema js f = []"
  shows "\<exists>q c p. parseInt js (sf_quantity f) = Some q \<and> 1 \<le> q \<and>
           parseFloat js (sf_cost_price f) = Some c \<and> parseFloat js (sf_selling_price f) = Some p"
  using assms by (auto simp: saleSchema_def js_ge_def split: if_splits option.splits)


lemma select_stockItem_none:
  assumes "\<forall>r \<in> set (stock d). \<not> (stock_user_id r = userId \<and>
             ilike js (stock_product_name r) (trim name))"
  shows "select_stockItem js userId name selectError d = None"
proof -
  from assms have "filter (\<lambda>r. stock_user_id r = userId \<and>
      ilike js (stock_product_name r) (trim name)) (stock d) = []"
    by (simp add: filter_empty_conv)
  then show ?thesis by (simp add: select_stockItem_def maybeSingle_def split: option.splits)
qed



lemma example_sale_run:
  "SalesPage_handleSubmit example_platform 7 (example_sale_form '' rice'' ''3'') None None None
     example_store =
   (example_store
      \<lparr>stock := [\<lparr>stock_id = 1, stock_user_id = 7, stock_product_name = ''Rice'',
                  stock_quantity = 7, stock_cost_price = 5, stock_total_sold = 3\<rparr>],
       sales := [\<lparr>sale_user_id = 7, sale_date = ''2025-12-01'', sale_time = ''10:00'',
                  sale_product_name = ''rice'', sale_quantity = 3, sale_cost_price = 5,
                  sale_selling_price = 8, sale_total_cost = 15, sale_revenue = 24,
                  sale_profit_loss = 9\<rparr>]\<rparr>,
    Done ''Sale recorded successfully! Stock updated.'')"
  by code_simp

text \<open>
  C3. Every sale that \<open>handleSubmit\<close> records is one new row of \<open>sales\<close> whose quantity,
  cost price and selling price are the numbers read from the form, and whose derived
  fields are \<open>total_cost = quantity * cost_price\<close>, \<open>revenue = quantity * selling_price\<close>
  and \<open>profit_loss = revenue - total_cost\<close>.
\<close>

theorem sale_derived_fields:
  assumes "SalesPage_handleSubmit js userId formData selectError stockError error d = (d', Done t)"
  shows "\<exists>r. sales d' = sales d @ [r] \<and>
           parseInt js (sf_quantity formData) = Some (sale_quantity r) \<and>
           parseFloat js (sf_cost_price formData) = Some (sale_cost_price r) \<and>
           parseFloat js (sf_selling_price formData) = Some (sale_selling_price r) \<and>
           sale_total_cost r = of_int (sale_quantity r) * sale_cost_price r \<and>
           sale_revenue r = of_int (sale_quantity r) * sale_selling_price r \<and>
           sale_profit_loss r = sale_revenue r - sale_total_cost r"
proof -
  have valid: "saleSchema js formData = []"
    using assms by (auto simp: SalesPage_handleSubmit_def split: if_splits)
  from saleSchema_valid [OF valid] obtain q c p where
    qcp: "parseInt js (sf_quantity formData) = Some q"
      "parseFloat js (sf_cost_price formData) = Some c"
      "parseFloat js (sf_selling_price formData) = Some p" by blast
  have "sales d' = sales d @ [sale_of_form js userId formData]"
    using assms valid
    by (auto simp: SalesPage_handleSubmit_def Let_def split: if_splits option.splits)
  moreover have "sale_quantity (sale_of_form js userId formData) = q"
    "sale_cost_price (sale_of_form js userId formData) = c"
    "sale_selling_price (sale_of_form js userId formData) = p"
    "sale_total_cost (sale_of_form js userId formData) = of_int q * c"
    "sale_revenue (sale_of_form js userId formData) = of_int q * p"
    "sale_profit_loss (sale_of_form js userId formData) = of_int q * p - of_int q * c"
    using qcp by (simp_all add: sale_of_form_def Let_def)
  ultimately show ?thesis using qcp by simp
qed

theorem sale_derived_fields_witness:
  "\<exists>d' r. SalesPage_handleSubmit example_platform 7 (example_sale_form '' rice'' ''3'')
             None None None example_store = (d', Done ''Sale recorded successfully! Stock updated.'') \<and>
          sales d' = sales example_store @ [r] \<and>
          sale_total_cost r = of_int (sale_quantity r) * sale_cost_price r \<and>
          sale_revenue r = of_int (sale_quantity r) * sale_selling_price r \<and>
          sale_profit_loss r = sale_revenue r - sale_total_cost r"
  using sale_derived_fields [OF example_sale_run] example_sale_run by blast



text \<open>
  C9. When no stock row of the user matches the trimmed product name of a valid sale
  form, \<open>handleSubmit\<close> makes no stock check: whatever the quantity of the form, it
  inserts the sale row (unless the store refuses the insert) and the \<open>stock\<close> table is
  not written.
\<close>

theorem sale_without_stock_match:
  assumes valid: "saleSchema js formData = []"
    and nomatch: "\<forall>r \<in> set (stock d). \<not> (stock_user_id r = userId \<and>
                    ilike js (stock_product_name r) (trim (sf_product_name formData)))"
  shows "SalesPage_handleSubmit js userId formData selectError stockError error d =
           (case error of
              None \<Rightarrow> (d\<lparr>sales := sales d @ [sale_of_form js userId formData]\<rparr>,
                        Done ''Sale recorded successfully!'')
            | Some _ \<Rightarrow> (d, Failed ''Error adding sale''))"
  using valid select_stockItem_none [OF nomatch, of selectError]
  by (simp add: SalesPage_handleSubmit_def Let_def split: option.splits)

theorem sale_without_stock_match_witness:
  "saleSchema example_platform (example_sale_form ''Yam'' ''500'') = [] \<and>
   list_all (\<lambda>r. \<not> (stock_user_id r = 7 \<and>
       ilike example_platform (stock_product_name r)
         (trim (sf_product_name (example_sale_form ''Yam'' ''500''))))) (stock example_store) \<and>
   SalesPage_handleSubmit example_platform 7 (example_sale_form ''Yam'' ''500'') None None None
     example_store =
   (example_store\<lparr>sales := sales example_store @
       [sale_of_form example_platform 7 (example_sale_form ''Yam'' ''500'')]\<rparr>,
    Done ''Sale recorded successfully!'')"
proof -
  have valid: "saleSchema example_platform (example_sale_form ''Yam'' ''500'') = []"
    by code_simp
  have nomatch: "\<forall>r \<in> set (stock example_store). \<not> (stock_user_id r = 7 \<and>
       ilike example_platform (stock_product_name r)
         (trim (sf_product_name (example_sale_form ''Yam'' ''500''))))"
    by code_simp
  from sale_without_stock_match [OF valid nomatch, of None None None]
  show ?thesis using valid nomatch by (simp add: list_all_iff)
qed

lemma update_stock_nonneg:
  "list_all (\<lambda>r. 0 \<le> stock_quantity r) rows \<Longrightarrow> 0 \<le> q \<Longrightarrow>
   list_all (\<lambda>r. 0 \<le> stock_quantity r) (update_stock i q ts rows)"
  by (induction rows) (auto simp: update_stock_def)

lemma add_stock_nonneg:
  assumes "stock_nonneg d"
  shows "stock_nonneg (fst (StockManagement_handleSubmit js userId f error d))"
proof (cases "stockSchema js f = []")
  case True
  then have "js_ge (parseInt js (st_quantity f)) 1"
    by (auto simp: stockSchema_def split: if_splits)
  then obtain q where "parseInt js (st_quantity f) = Some q" "1 \<le> q"
    by (auto simp: js_ge_def split: option.splits)
  with assms True show ?thesis
    by (auto simp: StockManagement_handleSubmit_def stock_nonneg_def Let_def split: option.splits)
next
  case False
  with assms show ?thesis by (simp add: StockManagement_handleSubmit_def)
qed

lemma restock_nonneg:
  assumes "stock_nonneg d" and "\<forall>item. restockItem = Some item \<longrightarrow> 0 \<le> stock_quantity item"
  shows "stock_nonneg (fst (handleRestock js restockItem restockQuantity error d))"
proof -
  have "list_all (\<lambda>r. 0 \<le> stock_quantity r) (map (\<lambda>r. if stock_id r = i
            then r\<lparr>stock_quantity := n\<rparr> else r) (stock d))" if "0 \<le> n" for i n
    using assms(1) that unfolding stock_nonneg_def by (induction "stock d") (auto simp: list_all_iff)
  with assms show ?thesis
    by (auto simp: handleRestock_def stock_nonneg_def Let_def split: option.splits)
qed

lemma sale_nonneg:
  assumes "stock_nonneg d"
  shows "stock_nonneg (fst (SalesPage_handleSubmit js userId f selectError stockError error d))"
proof (cases "saleSchema js f = []")
  case True
  from saleSchema_valid [OF True] obtain q where q: "parseInt js (sf_quantity f) = Some q" by blast
  show ?thesis
    using assms True q update_stock_nonneg [of "stock d"]
    by (auto simp: SalesPage_handleSubmit_def stock_nonneg_def Let_def split: option.splits)
next
  case False
  with assms show ?thesis by (simp add: SalesPage_handleSubmit_def)
qed

text \<open>
  C5. The three handlers that write a stock quantity keep every quantity of the
  \<open>stock\<close> table non-negative: adding a stock item, restocking an item that the page
  holds with a non-negative quantity, and recording a sale.
\<close>

theorem stock_quantity_never_negative:
  assumes "stock_nonneg d"
  shows "stock_nonneg (fst (StockManagement_handleSubmit js userId stockForm error d)) \<and>
         ((\<forall>item. restockItem = Some item \<longrightarrow> 0 \<le> stock_quantity item) \<longrightarrow>
            stock_nonneg (fst (handleRestock js restockItem restockQuantity error d))) \<and>
         stock_nonneg (fst (SalesPage_handleSubmit js userId saleForm selectError stockError error d))"
  using assms add_stock_nonneg restock_nonneg sale_nonneg by blast

theorem stock_quantity_never_negative_witness:
  "stock_nonneg example_store \<and>
   stock_nonneg (fst (StockManagement_handleSubmit example_platform 7 example_stock_form None
                        example_store)) \<and>
   stock_nonneg (fst (handleRestock example_platform (Some (hd (stock example_store))) ''5'' None
                        example_store)) \<and>
   stock_nonneg (fst (SalesPage_handleSubmit example_platform 7 (example_sale_form ''rice'' ''10'')
                        None None None example_store)) \<and>
   stock example_store \<noteq>
     stock (fst (SalesPage_handleSubmit example_platform 7 (example_sale_form ''rice'' ''10'')
                   None None None example_store))"
proof -
  have inv: "stock_nonneg example_store" by code_simp
  have item: "\<forall>item. Some (hd (stock example_store)) = Some item \<longrightarrow> 0 \<le> stock_quantity item"
    by (simp add: example_store_def)
  have changed: "stock example_store \<noteq>
     stock (fst (SalesPage_handleSubmit example_platform 7 (example_sale_form ''rice'' ''10'')
                   None None None example_store))"
    by code_simp
  from stock_quantity_never_negative [OF inv, of example_platform 7 example_stock_form None
      "Some (hd (stock example_store))" "''5''" "example_sale_form ''rice'' ''10''" None None]
  show ?thesis using inv item changed by blast
qed

section \<open>Properties of the debt page and of the payment dialog\<close>

text \<open>The example form and the stores of the examples, evaluated once.\<close>

lemma example_debt_form_value:
  "example_debt_form payment =
     \<lparr>df_customer_name = ''Ada Obi'', df_customer_phone = ''08012345678'',
      df_customer_email = [],
      df_items =
        [\<lparr>bi_item_date = ''2025-12-01'', bi_item_name = ''Rice bag'',
           bi_quantity = 2, bi_selling_price = 300, bi_total = 600\<rparr>,
         \<lparr>bi_item_date = ''2025-12-01'', bi_item_name = ''Oil'',
           bi_quantity = 4, bi_selling_price = 100, bi_total = 400\<rparr>],
      df_grand_total = 1000, df_payment_amount = payment\<rparr>"
  by code_simp

lemma example_debtor_store_value:
  "example_debtor_store =
     \<lparr>stock = [\<lparr>stock_id = 1, stock_user_id = 7, stock_product_name = ''Rice'',
                stock_quantity = 10, stock_cost_price = 5, stock_total_sold = 0\<rparr>],
      sales = [],
      debtors = [\<lparr>debtor_id = 1, debtor_user_id = 7, customer_name = ''Ada Obi'',
                  customer_phone = ''08012345678'', customer_email = None,
                  grand_total = 1000, total_paid = 0, current_balance = 1000,
                  status = ''pending''\<rparr>],
      debt_items = [\<lparr>di_debtor_id = 1, di_item_date = ''2025-12-01'',
                     di_item_name = ''Rice bag'', di_quantity = 2,
                     di_selling_price = 300, di_total = 600\<rparr>,
                    \<lparr>di_debtor_id = 1, di_item_date = ''2025-12-01'',
                     di_item_name = ''Oil'', di_quantity = 4, di_selling_price = 100,
                     di_total = 400\<rparr>],
      payments = []\<rparr>"
  unfolding example_debtor_store_def example_debt_form_value by code_simp

lemma example_payments_run:
  "record_payments example_platform 7 1 [''400'', ''600'']
     (fetchDebtors 7 None example_debtor_store [], example_debtor_store) =
   Some ([\<lparr>debtor_id = 1, debtor_user_id = 7, customer_name = ''Ada Obi'',
            customer_phone = ''08012345678'', customer_email = None,
            grand_total = 1000, total_paid = 1000, current_balance = 0,
            status = ''paid''\<rparr>],
     \<lparr>stock = [\<lparr>stock_id = 1, stock_user_id = 7, stock_product_name = ''Rice'',
                stock_quantity = 10, stock_cost_price = 5, stock_total_sold = 0\<rparr>],
      sales = [],
      debtors = [\<lparr>debtor_id = 1, debtor_user_id = 7, customer_name = ''Ada Obi'',
                  customer_phone = ''08012345678'', customer_email = None,
                  grand_total = 1000, total_paid = 1000, current_balance = 0,
                  status = ''paid''\<rparr>],
      debt_items = [\<lparr>di_debtor_id = 1, di_item_date = ''2025-12-01'',
                     di_item_name = ''Rice bag'', di_quantity = 2,
                     di_selling_price = 300, di_total = 600\<rparr>,
                    \<lparr>di_debtor_id = 1, di_item_date = ''2025-12-01'',
                     di_item_name = ''Oil'', di_quantity = 4, di_selling_price = 100,
                     di_total = 400\<rparr>],
      payments = [\<lparr>pay_debtor_id = 1, pay_amount = 400\<rparr>,
                  \<lparr>pay_debtor_id = 1, pay_amount = 600\<rparr>]\<rparr>)"
  unfolding example_debtor_store_value by code_simp












lemma example_first_payment:
  "map_option (\<lambda>st. map (\<lambda>r. (grand_total r, total_paid r, current_balance r, status r))
                       (debtors (snd st)))
     (record_payments example_platform 7 1 [''400'']
        (fetchDebtors 7 None example_debtor_store [], example_debtor_store)) =
   Some [(1000, 400, 600, ''pending'')]"
  unfolding example_debtor_store_value by code_simp

lemma example_second_payment:
  "map_option (\<lambda>st. map (\<lambda>r. (grand_total r, total_paid r, current_balance r, status r))
                       (debtors (snd st)))
     (record_payments example_platform 7 1 [''400'', ''600'']
        (fetchDebtors 7 None example_debtor_store [], example_debtor_store)) =
   Some [(1000, 1000, 0, ''paid'')]"
  unfolding example_payments_run by simp





lemma itemSchema_valid:
  assumes "itemSchema js c = []"
  shows "\<exists>q p. parseInt js (ci_quantity c) = Some q \<and> parseFloat js (ci_selling_price c) = Some p"
  using assms by (auto simp: itemSchema_def js_ge_def split: if_splits option.splits)







text \<open>
  C8. When the amount entered in the payment dialog is a number below \<open>0.01\<close> or
  above the \<open>current_balance\<close> of the dialog's debtor, \<open>handleSubmit\<close> returns with a
  validation message and the store is as it was: no payment row is inserted and no
  debtor row is updated, whatever the store would have answered.
\<close>

theorem payment_validation_no_writes:
  assumes "parseFloat js amount = Some a"
    and "a < 1 / 100 \<or> dp_current_balance debtor < a"
  shows "\<exists>message. PaymentModal_handleSubmit js (Some debtor) amount paymentError updateError d =
           (d, Invalid [(''amount'', message)])"
  using assms by (auto simp: PaymentModal_handleSubmit_def)

theorem payment_validation_no_writes_witness:
  "parseFloat example_platform ''2000'' = Some 2000 \<and>
   dp_current_balance (handlePayment (hd (debtors example_debtor_store))) < 2000 \<and>
   (\<exists>message. PaymentModal_handleSubmit example_platform
        (Some (handlePayment (hd (debtors example_debtor_store)))) ''2000'' None None
        example_debtor_store = (example_debtor_store, Invalid [(''amount'', message)]))"
proof -
  have a: "parseFloat example_platform ''2000'' = Some 2000" by code_simp
  have b: "dp_current_balance (handlePayment (hd (debtors example_debtor_store))) < 2000"
    unfolding example_debtor_store_value by code_simp
  from payment_validation_no_writes [OF a disjI2, OF b] a b show ?thesis by blast
qed

lemma createDebtor_items_error:
  assumes "createDebtor js userId formData None (Some e) paymentError d = ((formData', d'), out)"
    and "customerSchema formData = []" and "df_items formData \<noteq> []"
    and "parseFloat js (df_payment_amount formData) = Some p" and "0 \<le> p" and "p \<le> df_grand_total formData"
  shows "out = Failed ''Error adding items'' \<and> formData' = formData \<and>
         (\<exists>row. d' = d\<lparr>debtors := debtors d @ [row]\<rparr> \<and> userId = debtor_user_id row \<and>
              grand_total row = df_grand_total formData \<and> total_paid row = p)"
  using assms by (auto simp: createDebtor_def Let_def)

text \<open>
  What \<open>createDebtor\<close> reports never depends on the result of the payment insert.
\<close>

lemma createDebtor_outcome_ignores_paymentError:
  "snd (createDebtor js userId formData debtorError itemsError paymentError d) =
   snd (createDebtor js userId formData debtorError itemsError None d)"
  by (simp add: createDebtor_def Let_def split: option.splits)

text \<open>
  C6. \<open>createDebtor\<close> writes the debtor row, then the items, then the initial payment,
  and undoes nothing. When the insert of the items fails it stops with the error toast
  and the debtor row stays in the store (\<open>createDebtor_items_error\<close>). When the insert
  of the initial payment fails, nothing reports it: the handler ends with its success
  toast, the form is emptied, and the store holds the debtor row with
  \<open>total_paid = 400\<close> and the items, and no payment row.
\<close>

theorem createDebtor_payment_error_unreported:
  "createDebtor example_platform 7 (example_debt_form ''400'') None None (Some ''network error'')
     example_store =
   ((initial_formData,
     example_store
       \<lparr>debtors := [\<lparr>debtor_id = 1, debtor_user_id = 7, customer_name = ''Ada Obi'',
                     customer_phone = ''08012345678'', customer_email = None,
                     grand_total = 1000, total_paid = 400, current_balance = 600,
                     status = ''pending''\<rparr>],
        debt_items := [\<lparr>di_debtor_id = 1, di_item_date = ''2025-12-01'',
                        di_item_name = ''Rice bag'', di_quantity = 2,
                        di_selling_price = 300, di_total = 600\<rparr>,
                       \<lparr>di_debtor_id = 1, di_item_date = ''2025-12-01'',
                        di_item_name = ''Oil'', di_quantity = 4, di_selling_price = 100,
                        di_total = 400\<rparr>],
        payments := []\<rparr>),
    Done ''Debtor created successfully!'')"
  unfolding example_debt_form_value by code_simp

section \<open>Properties of the CSV export\<close>

lemma scan_plain:
  assumes "CHR '','' \<notin> set s" "CHR 0x22 \<notin> set s" "CHR 0x0A \<notin> set s"
    and "st = Field_start \<or> st = Unquoted"
  shows "csv_scan st fld flds recs (s @ rest) =
         csv_scan (if s = [] then st else Unquoted) (fld @ s) flds recs rest"
  using assms
proof (induction s arbitrary: st fld)
  case Nil
  then show ?case by simp
next
  case (Cons c s)
  from Cons.prems have c: "c \<noteq> CHR '',''" "c \<noteq> CHR 0x22" "c \<noteq> CHR 0x0A" by auto
  from Cons.prems have s: "CHR '','' \<notin> set s" "CHR 0x22 \<notin> set s" "CHR 0x0A \<notin> set s" by auto
  have "csv_scan st fld flds recs ((c # s) @ rest) = csv_scan Unquoted (fld @ [c]) flds recs (s @ rest)"
    using Cons.prems(4) c by auto
  also have "\<dots> = csv_scan (if s = [] then Unquoted else Unquoted) ((fld @ [c]) @ s) flds recs rest"
    by (rule Cons.IH [OF s]) simp
  finally show ?case by simp
qed

lemma double_quotes_Cons:
  "double_quotes (c # s) = (if c = CHR 0x22 then CHR 0x22 # CHR 0x22 # double_quotes s
                            else c # double_quotes s)"
  by (simp add: double_quotes_def)

lemma scan_quoted:
  "csv_scan Quoted fld flds recs (double_quotes s @ CHR 0x22 # rest) =
   csv_scan Quote_seen (fld @ s) flds recs rest"
proof (induction s arbitrary: fld)
  case Nil
  show ?case by (simp add: double_quotes_def)
next
  case (Cons c s)
  show ?case using Cons.IH [of "fld @ [c]"] by (auto simp: double_quotes_Cons)
qed

lemma scan_boundary:
  assumes "at_boundary rest" and "st \<noteq> Quoted"
  shows "csv_scan st fld flds recs rest = csv_scan Unquoted fld flds recs rest"
  using assms by (cases rest; cases st) (auto simp: at_boundary_def)

lemma scan_cell:
  assumes "at_boundary rest"
  shows "csv_scan Field_start [] flds recs (csv_cell v @ rest) =
         csv_scan Unquoted (String (blank_nullish v)) flds recs rest"
proof (cases v)
  case Null
  then show ?thesis using scan_boundary [OF assms, of Field_start]
    by (simp add: csv_cell_def blank_nullish_def)
next
  case Undefined
  then show ?thesis using scan_boundary [OF assms, of Field_start]
    by (simp add: csv_cell_def blank_nullish_def)
next
  case (Value s)
  show ?thesis
  proof (cases "CHR '','' \<in> set s \<or> CHR 0x22 \<in> set s \<or> CHR 0x0A \<in> set s")
    case True
    then have "csv_cell v @ rest = CHR 0x22 # double_quotes s @ CHR 0x22 # rest"
      using Value by (simp add: csv_cell_def)
    then have "csv_scan Field_start [] flds recs (csv_cell v @ rest) =
               csv_scan Quoted [] flds recs (double_quotes s @ CHR 0x22 # rest)" by simp
    also have "\<dots> = csv_scan Quote_seen s flds recs rest" using scan_quoted [of "[]"] by simp
    also have "\<dots> = csv_scan Unquoted s flds recs rest"
      using assms by (rule scan_boundary) simp
    finally show ?thesis using Value by (simp add: blank_nullish_def)
  next
    case False
    then have plain: "CHR '','' \<notin> set s" "CHR 0x22 \<notin> set s" "CHR 0x0A \<notin> set s" by auto
    have "csv_scan Field_start [] flds recs (csv_cell v @ rest) =
          csv_scan Field_start [] flds recs (s @ rest)"
      using False Value by (simp add: csv_cell_def)
    also have "\<dots> = csv_scan (if s = [] then Field_start else Unquoted) ([] @ s) flds recs rest"
      by (rule scan_plain [OF plain]) simp
    also have "\<dots> = csv_scan Unquoted s flds recs rest"
      using scan_boundary [OF assms, of Field_start] by simp
    finally show ?thesis using Value by (simp add: blank_nullish_def)
  qed
qed

lemma scan_record:
  assumes "vs \<noteq> []" and "rest = [] \<or> hd rest = CHR 0x0A"
  shows "csv_scan Field_start [] flds recs (join '','' (map csv_cell vs) @ rest) =
         csv_scan Unquoted (String (blank_nullish (last vs)))
           (flds @ map (\<lambda>v. String (blank_nullish v)) (butlast vs)) recs rest"
  using assms(1)
proof (induction vs arbitrary: flds)
  case Nil
  then show ?case by simp
next
  case (Cons v vs)
  show ?case
  proof (cases vs)
    case Nil
    have "at_boundary rest" using assms(2) by (cases rest) (auto simp: at_boundary_def)
    then show ?thesis using Nil by (simp add: scan_cell)
  next
    case (Cons w ws)
    have b: "at_boundary (CHR '','' # join '','' (map csv_cell vs) @ rest)"
      by (simp add: at_boundary_def)
    have "join '','' (map csv_cell (v # vs)) @ rest =
          csv_cell v @ CHR '','' # join '','' (map csv_cell vs) @ rest"
      using Cons by simp
    then have "csv_scan Field_start [] flds recs (join '','' (map csv_cell (v # vs)) @ rest) =
          csv_scan Unquoted (String (blank_nullish v)) flds recs
            (CHR '','' # join '','' (map csv_cell vs) @ rest)"
      using scan_cell [OF b] by simp
    also have "\<dots> = csv_scan Field_start [] (flds @ [String (blank_nullish v)]) recs
            (join '','' (map csv_cell vs) @ rest)" by simp
    also have "\<dots> = csv_scan Unquoted (String (blank_nullish (last vs)))
           ((flds @ [String (blank_nullish v)]) @ map (\<lambda>v. String (blank_nullish v)) (butlast vs))
           recs rest"
      by (rule Cons.IH) (simp add: Cons)
    finally show ?thesis using Cons by simp
  qed
qed

lemma scan_table:
  assumes "table \<noteq> []" and "\<forall>vs \<in> set table. vs \<noteq> []"
  shows "csv_scan Field_start [] [] recs
           (join [CHR 0x0A] (map (\<lambda>vs. join '','' (map csv_cell vs)) table)) =
         recs @ map (map (\<lambda>v. String (blank_nullish v))) table"
  using assms
proof (induction table arbitrary: recs)
  case Nil
  then show ?case by simp
next
  case (Cons vs table)
  from Cons.prems have vs: "vs \<noteq> []" by simp
  have whole: "map (\<lambda>v. String (blank_nullish v)) (butlast vs) @ [String (blank_nullish (last vs))]
               = map (\<lambda>v. String (blank_nullish v)) vs"
    using vs by (metis (no_types) append_butlast_last_id list.simps(8,9) map_append)
  show ?case
  proof (cases table)
    case Nil
    have "csv_scan Field_start [] [] recs (join '','' (map csv_cell vs) @ []) =
          csv_scan Unquoted (String (blank_nullish (last vs)))
            ([] @ map (\<lambda>v. String (blank_nullish v)) (butlast vs)) recs []"
      by (rule scan_record [OF vs]) simp
    then show ?thesis using Nil whole by simp
  next
    case (Cons ws table')
    let ?more = "join [CHR 0x0A] (map (\<lambda>vs. join '','' (map csv_cell vs)) table)"
    have "csv_scan Field_start [] [] recs (join '','' (map csv_cell vs) @ CHR 0x0A # ?more) =
          csv_scan Unquoted (String (blank_nullish (last vs)))
            ([] @ map (\<lambda>v. String (blank_nullish v)) (butlast vs)) recs (CHR 0x0A # ?more)"
      by (rule scan_record [OF vs]) simp
    also have "\<dots> = csv_scan Field_start [] []
            (recs @ [map (\<lambda>v. String (blank_nullish v)) vs]) ?more"
      using whole by simp
    also have "\<dots> = (recs @ [map (\<lambda>v. String (blank_nullish v)) vs]) @
            map (map (\<lambda>v. String (blank_nullish v))) table"
      using Cons.prems Cons by (intro Cons.IH) auto
    finally show ?thesis using Cons by simp
  qed
qed

lemma plain_key_cell: "plain_key k \<Longrightarrow> csv_cell (Value k) = k"
  by (simp add: plain_key_def csv_cell_def)

lemma header_line:
  assumes "\<forall>k \<in> set keys. plain_key k"
  shows "join '','' keys = join '','' (map csv_cell (map Value keys))"
proof -
  have "map csv_cell (map Value keys) = keys"
    using assms by (induction keys) (simp_all add: plain_key_cell)
  then show ?thesis by simp
qed

lemma export_parsed:
  assumes "exportToCsv filename rows headers = Some (name, csvContent)"
    and "keys = (case headers of Some h \<Rightarrow> h | None \<Rightarrow> map fst (hd rows))"
    and "keys \<noteq> []" and "\<forall>k \<in> set keys. plain_key k"
  shows "parse_csv csvContent =
           keys # map (\<lambda>row. map (\<lambda>key. String (blank_nullish (row_get row key))) keys) rows"
proof -
  let ?table = "map Value keys # map (\<lambda>row. map (row_get row) keys) rows"
  from assms(1,2) have "csvContent = join [CHR 0x0A]
                   (join '','' keys #
                    map (\<lambda>row. join '','' (map (\<lambda>key. csv_cell (row_get row key)) keys)) rows)"
    by (cases headers; cases rows) (simp_all add: exportToCsv_def Let_def)
  then have "csvContent = join [CHR 0x0A] (map (\<lambda>vs. join '','' (map csv_cell vs)) ?table)"
    using header_line [OF assms(4)] by (simp add: comp_def)
  moreover have "?table \<noteq> []" "\<forall>vs \<in> set ?table. vs \<noteq> []" using assms(3) by auto
  ultimately have "parse_csv csvContent = [] @ map (map (\<lambda>v. String (blank_nullish v))) ?table"
    unfolding parse_csv_def using scan_table by metis
  then show ?thesis by (simp add: comp_def blank_nullish_def)
qed

lemma cell_text: "String (blank_nullish v) = (if v = Null \<or> v = Undefined then [] else String v)"
  by (cases v) (simp_all add: blank_nullish_def)

lemma export_content:
  assumes "exportToCsv filename rows headers = Some (name, csvContent)"
    and "keys = (case headers of Some h \<Rightarrow> h | None \<Rightarrow> map fst (hd rows))"
  shows "csvContent = join [CHR 0x0A]
                   (join '','' keys #
                    map (\<lambda>row. join '','' (map (\<lambda>key. csv_cell (row_get row key)) keys)) rows)"
  using assms by (cases headers; cases rows) (simp_all add: exportToCsv_def Let_def)

lemma export_no_columns:
  assumes "exportToCsv filename rows headers = Some (name, csvContent)"
    and "[] = (case headers of Some h \<Rightarrow> h | None \<Rightarrow> map fst (hd rows))"
  shows "length (parse_csv csvContent) = Suc (length rows)"
proof -
  let ?table = "[Value []] # map (\<lambda>row. [Value []]) rows"
  have "csvContent = join [CHR 0x0A] (map (\<lambda>vs. join '','' (map csv_cell vs)) ?table)"
    using export_content [OF assms] by (simp add: csv_cell_def comp_def)
  moreover have "?table \<noteq> []" "\<forall>vs \<in> set ?table. vs \<noteq> []" by auto
  ultimately have "parse_csv csvContent = [] @ map (map (\<lambda>v. String (blank_nullish v))) ?table"
    unfolding parse_csv_def using scan_table by metis
  then show ?thesis by simp
qed

text \<open>
  C4, as the code has it. A non-empty list of rows is exported, with column keys that
  contain no comma, double quote or line feed. Reading the exported text back gives
  one record for the header and one for each row; the cell of every row and column is
  \<open>String()\<close> of the source field when the field is neither \<open>null\<close> nor
  \<open>undefined\<close>, also when it contains commas, double quotes or line feeds, and the
  empty string when the field is \<open>null\<close> or \<open>undefined\<close>. With at least one column
  the records read back are exactly the header and these rows.
\<close>

theorem csv_round_trip:
  assumes export: "exportToCsv filename rows headers = Some (name, csvContent)"
    and keys: "keys = (case headers of Some h \<Rightarrow> h | None \<Rightarrow> map fst (hd rows))"
    and plain: "\<forall>k \<in> set keys. plain_key k"
  shows "length (parse_csv csvContent) = Suc (length rows) \<and>
         (\<forall>i < length rows. \<forall>j < length keys.
            parse_csv csvContent ! Suc i ! j =
              (let v = row_get (rows ! i) (keys ! j)
               in if v = Null \<or> v = Undefined then [] else String v)) \<and>
         (keys \<noteq> [] \<longrightarrow>
            parse_csv csvContent =
              keys # map (\<lambda>row. map (\<lambda>key. let v = row_get row key
                                           in if v = Null \<or> v = Undefined then [] else String v)
                              keys) rows)"
proof (cases "keys = []")
  case True
  then show ?thesis using export_no_columns [OF export keys [unfolded True]] by simp
next
  case False
  have "parse_csv csvContent =
           keys # map (\<lambda>row. map (\<lambda>key. String (blank_nullish (row_get row key))) keys) rows"
    using export keys False plain by (rule export_parsed)
  then have eq: "parse_csv csvContent =
              keys # map (\<lambda>row. map (\<lambda>key. let v = row_get row key
                                           in if v = Null \<or> v = Undefined then [] else String v)
                              keys) rows"
    by (simp add: cell_text Let_def)
  show ?thesis unfolding eq by (simp add: Let_def)
qed

lemma example_export:
  "exportToCsv ''debtors'' example_rows None =
     Some (''debtors.csv'', snd (the (exportToCsv ''debtors'' example_rows None)))"
  by code_simp

theorem csv_round_trip_witness:
  "exportToCsv ''debtors'' example_rows None =
     Some (''debtors.csv'', snd (the (exportToCsv ''debtors'' example_rows None))) \<and>
   list_all plain_key [''Customer Name'', ''Note'', ''Email''] \<and>
   parse_csv (snd (the (exportToCsv ''debtors'' example_rows None))) =
     [''Customer Name'', ''Note'', ''Email''] #
     map (\<lambda>row. map (\<lambda>key. let v = row_get row key
                               in if v = Null \<or> v = Undefined then [] else String v)
                    [''Customer Name'', ''Note'', ''Email'']) example_rows"
proof -
  have keys: "[''Customer Name'', ''Note'', ''Email''] =
      (case None of Some h \<Rightarrow> h | None \<Rightarrow> map fst (hd example_rows))"
    by code_simp
  have plain: "\<forall>k \<in> set [''Customer Name'', ''Note'', ''Email'']. plain_key k"
    by code_simp
  from csv_round_trip [OF example_export keys plain] example_export plain
  show ?thesis unfolding list_all_iff by blast
qed

text \<open>
  C4 as stated fails on a \<open>null\<close> field: the first of the example rows has
  \<open>Email = null\<close>, \<open>String(null)\<close> is \<open>"null"\<close>, and the cell read back is
  empty.
\<close>

theorem csv_null_not_recovered:
  "parse_csv (snd (the (exportToCsv ''debtors'' example_rows None))) ! 1 ! 2 \<noteq>
   String (row_get (example_rows ! 0) ''Email'')"
  by code_simp

text \<open>
  The header line is the keys joined by commas, without the quoting that the cells get.
  A key with a line feed is therefore read back as two records, and the rows move down
  by one: the round trip above is stated for keys that need no quoting.
\<close>

lemma csv_header_not_quoted:
  "parse_csv (snd (the (exportToCsv ''stock'' [[([CHR ''a'', CHR 0x0A, CHR ''b''], Value ''1'')]] None)))
     = [[''a''], [''b''], [''1'']]"
  by code_simp





end
